theory Spec2Isabelle
  imports Main "HOL-Library.AList" "HOL-Library.Sublist"
begin

section \<open>The storage gateway of app.py\<close>

text \<open>
  The program is a Flask application whose handlers call the storage SDK and the
  metadata endpoint.  Both are outside the repository, so they are modelled as a world
  that the handlers act on: the objects of the bucket, the answers of the metadata
  endpoint, and a schedule saying which of the coming external calls raise.  Every
  external call is recorded, so that a theorem can say which calls a handler made.
  Logging is left out: it has no influence on a response.
\<close>

subsection \<open>Exceptions\<close>

text \<open>
  app.py tells two classes of exception apart: \<^verbatim>\<open>GoogleAPIError\<close> and every other
  \<^verbatim>\<open>Exception\<close>.  The string is what \<^verbatim>\<open>str(e)\<close> gives.
\<close>

datatype exn = GoogleAPIError string | OtherError string

fun str_exn :: "exn \<Rightarrow> string" where
  "str_exn (GoogleAPIError m) = m"
| "str_exn (OtherError m) = m"

subsection \<open>The world outside the process\<close>

datatype call =
    CallClient
  | CallRequestsGet
  | CallListBlobs
  | CallExists string
  | CallUpload string string
  | CallDownload string
  | CallDelete string
  | CallListBuckets nat

text \<open>
  \<open>objects\<close> are the keys and contents of the configured bucket, \<open>project\<close> is the
  project the credentials belong to, \<open>metadata\<close> is the status code and text the metadata
  endpoint answers with.  \<open>pending\<close> is the schedule of the coming external calls: its head
  says whether the next call raises (\<open>Some e\<close>) or is answered (\<open>None\<close>); past its end
  every call is answered.  \<open>calls\<close> is the record of the calls made so far.
\<close>

record world =
  objects :: "(string \<times> string) list"
  project :: string
  metadata :: "nat \<times> string"
  pending :: "exn option list"
  calls :: "call list"

type_synonym 'a prog = "world \<Rightarrow> (exn + 'a) \<times> world"

definition ret :: "'a \<Rightarrow> 'a prog" where
  "ret x w = (Inr x, w)"

definition seq :: "'a prog \<Rightarrow> ('a \<Rightarrow> 'b prog) \<Rightarrow> 'b prog" where
  "seq m f w = (case m w of (Inl e, w') \<Rightarrow> (Inl e, w') | (Inr x, w') \<Rightarrow> f x w')"

text \<open>\<^verbatim>\<open>try: m  except Exception as e: h(e)\<close>\<close>

definition try_except :: "'a prog \<Rightarrow> (exn \<Rightarrow> 'a prog) \<Rightarrow> 'a prog" where
  "try_except m h w = (case m w of (Inl e, w') \<Rightarrow> h e w' | (Inr x, w') \<Rightarrow> (Inr x, w'))"

definition next_fault :: "world \<Rightarrow> exn option" where
  "next_fault w = (case pending w of Some e # _ \<Rightarrow> Some e | _ \<Rightarrow> None)"

definition tick :: "call \<Rightarrow> world \<Rightarrow> world" where
  "tick c w = w\<lparr>pending := tl (pending w), calls := calls w @ [c]\<rparr>"

text \<open>An external call: it is recorded, and it raises when the schedule says so.\<close>

definition extern :: "call \<Rightarrow> 'a prog \<Rightarrow> 'a prog" where
  "extern c act w =
     (case next_fault w of
        Some e \<Rightarrow> (Inl e, tick c w)
      | None \<Rightarrow> act (tick c w))"

text \<open>The next \<open>n\<close> external calls are answered.\<close>

definition answered :: "nat \<Rightarrow> world \<Rightarrow> bool" where
  "answered n w = list_all (\<lambda>x. x = None) (take n (pending w))"

text \<open>
  In a run from \<open>w\<close> to \<open>w'\<close> the storage client was acquired: the first call of the
  run is the client constructor, and the constructor returned.
\<close>

definition acquired :: "world \<Rightarrow> world \<Rightarrow> bool" where
  "acquired w w' =
     (next_fault w = None \<and> take 1 (drop (length (calls w)) (calls w')) = [CallClient])"

subsection \<open>The storage SDK and the metadata endpoint\<close>

text \<open>
  What the SDK calls used by app.py do to the bucket, as test/test\_gcs.py expects of
  them: an upload stores the content under the key and replaces what was there,
  \<^verbatim>\<open>exists\<close> tests the key, \<^verbatim>\<open>download_as_text\<close> returns the stored content,
  \<^verbatim>\<open>delete\<close> removes the object; downloading or deleting a missing object raises the
  SDK's not-found error.  \<^verbatim>\<open>client.bucket\<close> and \<^verbatim>\<open>bucket.blob\<close> only build
  local handles and make no call.
\<close>

datatype client = Client (client_project: string)

definition storage_Client :: "client prog" where
  "storage_Client = extern CallClient (\<lambda>w. (Inr (Client (project w)), w))"

definition requests_get :: "(nat \<times> string) prog" where
  "requests_get = extern CallRequestsGet (\<lambda>w. (Inr (metadata w), w))"

definition list_blobs :: "string list prog" where
  "list_blobs = extern CallListBlobs (\<lambda>w. (Inr (map fst (objects w)), w))"

definition blob_exists :: "string \<Rightarrow> bool prog" where
  "blob_exists k = extern (CallExists k) (\<lambda>w. (Inr (map_of (objects w) k \<noteq> None), w))"

definition upload_from_file :: "string \<Rightarrow> string \<Rightarrow> unit prog" where
  "upload_from_file k c =
     extern (CallUpload k c) (\<lambda>w. (Inr (), w\<lparr>objects := AList.update k c (objects w)\<rparr>))"

definition download_as_text :: "string \<Rightarrow> string prog" where
  "download_as_text k =
     extern (CallDownload k)
       (\<lambda>w. case map_of (objects w) k of
               None \<Rightarrow> (Inl (GoogleAPIError ''404 No such object''), w)
             | Some c \<Rightarrow> (Inr c, w))"

definition blob_delete :: "string \<Rightarrow> unit prog" where
  "blob_delete k =
     extern (CallDelete k)
       (\<lambda>w. case map_of (objects w) k of
               None \<Rightarrow> (Inl (GoogleAPIError ''404 No such object''), w)
             | Some c \<Rightarrow> (Inr (), w\<lparr>objects := AList.delete k (objects w)\<rparr>))"

definition list_buckets :: "nat \<Rightarrow> unit prog" where
  "list_buckets max_results = extern (CallListBuckets max_results) (\<lambda>w. (Inr (), w))"

subsection \<open>Requests and responses\<close>

record file_storage =
  filename :: string
  stream :: string

text \<open>
  \<open>args\<close> is the query string, \<open>form\<close> the form body, \<open>files\<close> the multipart file
  parts; \<^verbatim>\<open>d.get(k)\<close> is \<open>map_of d k\<close>, the first value of the key.
\<close>

record request =
  args :: "(string \<times> string) list"
  form :: "(string \<times> string) list"
  files :: "(string \<times> file_storage) list"

datatype json = JString string | JBool bool

text \<open>The variables handed to the home template; \<open>tpl_files\<close> is \<open>None\<close> when not passed.\<close>

record page =
  tpl_identity :: string
  tpl_bucket_name :: string
  tpl_message :: string
  tpl_message_class :: string
  tpl_files :: "string list option"

datatype body = Str string | Rendered page | Json "(string \<times> json) list"

record response =
  status :: nat
  body :: body

text \<open>Flask answers 200 when a view returns a body without a status.\<close>

definition ok :: "body \<Rightarrow> response" where
  "ok b = \<lparr>status = 200, body = b\<rparr>"

definition with_status :: "body \<Rightarrow> nat \<Rightarrow> response" where
  "with_status b s = \<lparr>status = s, body = b\<rparr>"

text \<open>Python's truth test of \<^verbatim>\<open>d.get(k)\<close>: \<^verbatim>\<open>None\<close> and the empty string are false.\<close>

definition truthy :: "string option \<Rightarrow> bool" where
  "truthy v = (case v of None \<Rightarrow> False | Some s \<Rightarrow> s \<noteq> [])"

text \<open>\<^verbatim>\<open>d.get(k, default)\<close>\<close>

definition get_default :: "(string \<times> string) list \<Rightarrow> string \<Rightarrow> string \<Rightarrow> string" where
  "get_default d k dflt = (case map_of d k of None \<Rightarrow> dflt | Some v \<Rightarrow> v)"

fun str_nat :: "nat \<Rightarrow> string" where
  "str_nat n =
     (if n < 10 then [''0123456789'' ! n]
      else str_nat (n div 10) @ [''0123456789'' ! (n mod 10)])"

declare str_nat.simps [simp del]

definition nl8 :: string where
  "nl8 = CHR 0x0A # replicate 8 (CHR '' '')"

definition nl12 :: string where
  "nl12 = CHR 0x0A # replicate 12 (CHR '' '')"

subsection \<open>get\_storage\_client and get\_identity\<close>

definition get_storage_client :: "client option prog" where
  "get_storage_client =
     try_except
       (seq storage_Client (\<lambda>client. ret (Some client)))
       (\<lambda>e. ret None)"

definition get_identity :: "string prog" where
  "get_identity =
     try_except
       (seq storage_Client (\<lambda>client.
          let project = client_project client in
          seq requests_get (\<lambda>response.
            if fst response = 200 then ret (snd response)
            else ret (''Authenticated (Project: '' @ project @ '')''))))
       (\<lambda>e. ret ''Unknown (Not properly authenticated)'')"

subsection \<open>The routes\<close>

text \<open>\<open>BN\<close> is the module constant \<^verbatim>\<open>BUCKET_NAME\<close>, read once from the environment.\<close>

definition home :: "string \<Rightarrow> request \<Rightarrow> response prog" where
  "home BN r =
     seq get_identity (\<lambda>ident.
       ret (ok (Rendered
         \<lparr>tpl_identity = ident, tpl_bucket_name = BN,
          tpl_message = get_default (args r) ''message'' [],
          tpl_message_class = get_default (args r) ''message_class'' [],
          tpl_files = None\<rparr>)))"

definition error_page :: "string \<Rightarrow> string \<Rightarrow> response prog" where
  "error_page BN msg =
     seq get_identity (\<lambda>ident.
       ret (ok (Rendered
         \<lparr>tpl_identity = ident, tpl_bucket_name = BN,
          tpl_message = msg, tpl_message_class = ''error'', tpl_files = None\<rparr>)))"

definition list_objects :: "string \<Rightarrow> response prog" where
  "list_objects BN =
     try_except
       (seq get_storage_client (\<lambda>client.
          case client of
            None \<Rightarrow>
              error_page BN
                ''Failed to create storage client. Check Workload Identity configuration.''
          | Some c \<Rightarrow>
              seq list_blobs (\<lambda>fs.
                seq get_identity (\<lambda>ident.
                  ret (ok (Rendered
                    \<lparr>tpl_identity = ident, tpl_bucket_name = BN,
                     tpl_message = ''Found '' @ str_nat (length fs) @ '' files in bucket'',
                     tpl_message_class = ''success'', tpl_files = Some fs\<rparr>))))))
       (\<lambda>e. case e of
               GoogleAPIError m \<Rightarrow> error_page BN (''GCS Error: '' @ str_exn e)
             | OtherError m \<Rightarrow> error_page BN (''Error: '' @ str_exn e))"

definition upload_page :: "string \<Rightarrow> string \<Rightarrow> string" where
  \<open>upload_page BN fname =
     nl8 @ ''<html>'' @ nl8 @ ''<body>'' @
     nl12 @ ''<h2>Upload Successful!</h2>'' @
     nl12 @ ''<p>File '' @ fname @ '' uploaded to '' @ BN @ ''</p>'' @
     nl12 @ ''<a href="/">Back to Home</a>'' @
     nl8 @ ''</body>'' @ nl8 @ ''</html>'' @ nl8\<close>

definition upload_file :: "string \<Rightarrow> request \<Rightarrow> response prog" where
  "upload_file BN r =
     try_except
       (case map_of (files r) ''file'' of
          None \<Rightarrow> ret (with_status (Str ''No file part'') 400)
        | Some file \<Rightarrow>
            if filename file = [] then ret (with_status (Str ''No selected file'') 400)
            else
              seq get_storage_client (\<lambda>client.
                case client of
                  None \<Rightarrow> ret (with_status (Str ''Storage client error'') 500)
                | Some c \<Rightarrow>
                    seq (upload_from_file (filename file) (stream file)) (\<lambda>_.
                      ret (ok (Str (upload_page BN (filename file)))))))
       (\<lambda>e. ret (with_status (Str (''Error uploading file: '' @ str_exn e)) 500))"

definition download_page :: "string \<Rightarrow> string \<Rightarrow> string" where
  \<open>download_page fname content =
     nl8 @ ''<html>'' @ nl8 @ ''<body>'' @
     nl12 @ ''<h2>File Content: '' @ fname @ ''</h2>'' @
     nl12 @ ''<pre>'' @ content @ ''</pre>'' @
     nl12 @ ''<a href="/">Back to Home</a>'' @
     nl8 @ ''</body>'' @ nl8 @ ''</html>'' @ nl8\<close>

definition download_file :: "string \<Rightarrow> request \<Rightarrow> response prog" where
  "download_file BN r =
     try_except
       (let fname = map_of (args r) ''filename'' in
        if \<not> truthy fname then ret (with_status (Str ''Filename required'') 400)
        else
          seq get_storage_client (\<lambda>client.
            case client of
              None \<Rightarrow> ret (with_status (Str ''Storage client error'') 500)
            | Some c \<Rightarrow>
                seq (blob_exists (the fname)) (\<lambda>ex.
                  if \<not> ex then
                    ret (with_status (Str (''File '' @ the fname @ '' not found'')) 404)
                  else
                    seq (download_as_text (the fname)) (\<lambda>content.
                      ret (ok (Str (download_page (the fname) content)))))))
       (\<lambda>e. ret (with_status (Str (''Error downloading file: '' @ str_exn e)) 500))"

definition delete_page :: "string \<Rightarrow> string \<Rightarrow> string" where
  \<open>delete_page BN fname =
     nl8 @ ''<html>'' @ nl8 @ ''<body>'' @
     nl12 @ ''<h2>Delete Successful!</h2>'' @
     nl12 @ ''<p>File '' @ fname @ '' deleted from '' @ BN @ ''</p>'' @
     nl12 @ ''<a href="/">Back to Home</a>'' @
     nl8 @ ''</body>'' @ nl8 @ ''</html>'' @ nl8\<close>

definition delete_file :: "string \<Rightarrow> request \<Rightarrow> response prog" where
  "delete_file BN r =
     try_except
       (let fname = map_of (form r) ''filename'' in
        if \<not> truthy fname then ret (with_status (Str ''Filename required'') 400)
        else
          seq get_storage_client (\<lambda>client.
            case client of
              None \<Rightarrow> ret (with_status (Str ''Storage client error'') 500)
            | Some c \<Rightarrow>
                seq (blob_exists (the fname)) (\<lambda>ex.
                  if \<not> ex then
                    ret (with_status (Str (''File '' @ the fname @ '' not found'')) 404)
                  else
                    seq (blob_delete (the fname)) (\<lambda>_.
                      ret (ok (Str (delete_page BN (the fname))))))))
       (\<lambda>e. ret (with_status (Str (''Error deleting file: '' @ str_exn e)) 500))"

definition health :: "response prog" where
  "health =
     try_except
       (seq get_storage_client (\<lambda>client.
          case client of
            Some c \<Rightarrow>
              seq (list_buckets 1) (\<lambda>_.
                ret (ok (Json [(''status'', JString ''healthy''),
                               (''authenticated'', JBool True)])))
          | None \<Rightarrow>
              ret (with_status (Json [(''status'', JString ''unhealthy''),
                                      (''authenticated'', JBool False)]) 500)))
       (\<lambda>e. ret (with_status (Json [(''status'', JString ''unhealthy''),
                                    (''error'', JString (str_exn e))]) 500))"

subsection \<open>Example requests and worlds\<close>

text \<open>
  Concrete inputs for the instances below: a request carrying only the query parameter
  \<^verbatim>\<open>filename\<close>, one carrying only the form field, one carrying only the file part,
  and a world with the given objects and schedule whose metadata endpoint answers 404.
\<close>

definition query :: "string \<Rightarrow> request" where
  "query k = \<lparr>args = [(''filename'', k)], form = [], files = []\<rparr>"

definition posted :: "string \<Rightarrow> request" where
  "posted k = \<lparr>args = [], form = [(''filename'', k)], files = []\<rparr>"

definition multipart :: "string \<Rightarrow> string \<Rightarrow> request" where
  "multipart k c =
     \<lparr>args = [], form = [], files = [(''file'', \<lparr>filename = k, stream = c\<rparr>)]\<rparr>"

definition world_of :: "(string \<times> string) list \<Rightarrow> exn option list \<Rightarrow> world" where
  "world_of objs sched =
     \<lparr>objects = objs, project = ''demo'', metadata = (404, ''Not Found''),
      pending = sched, calls = []\<rparr>"

section \<open>How the programs run\<close>

lemmas prog_defs = try_except_def seq_def ret_def with_status_def ok_def Let_def

lemmas example_defs = query_def posted_def multipart_def world_of_def next_fault_def tick_def

lemma truthy_simps [simp]:
  "truthy None = False" "truthy (Some s) = (s \<noteq> [])"
  by (simp_all add: truthy_def)

lemma tick_fields [simp]:
  "objects (tick c w) = objects w"
  "project (tick c w) = project w"
  "metadata (tick c w) = metadata w"
  "pending (tick c w) = tl (pending w)"
  "calls (tick c w) = calls w @ [c]"
  by (simp_all add: tick_def)

lemma answered_2:
  "answered 2 w \<Longrightarrow> next_fault w = None \<and> next_fault (tick c w) = None"
  by (cases "pending w"; cases "tl (pending w)")
     (auto simp: answered_def next_fault_def split: option.splits)

lemma answered_3:
  "answered 3 w \<Longrightarrow>
     next_fault w = None \<and> next_fault (tick c w) = None \<and> next_fault (tick d (tick c w)) = None"
  by (cases "pending w"; cases "tl (pending w)"; cases "tl (tl (pending w))")
     (auto simp: answered_def next_fault_def numeral_3_eq_3 split: option.splits)

lemma get_storage_client_run:
  "get_storage_client w =
     (Inr (case next_fault w of None \<Rightarrow> Some (Client (project w)) | Some e \<Rightarrow> None),
      tick CallClient w)"
  by (simp add: get_storage_client_def try_except_def seq_def ret_def storage_Client_def
        extern_def split: option.splits)

lemma blob_exists_run:
  "blob_exists k w =
     (case next_fault w of
        Some e \<Rightarrow> (Inl e, tick (CallExists k) w)
      | None \<Rightarrow> (Inr (map_of (objects w) k \<noteq> None), tick (CallExists k) w))"
  by (simp add: blob_exists_def extern_def split: option.splits)

lemma get_identity_returns: "\<exists>s w'. get_identity w = (Inr s, w')"
  by (simp add: get_identity_def prog_defs storage_Client_def requests_get_def extern_def
        split: option.splits)

lemma error_page_returns:
  "\<exists>ident w'. error_page BN msg w =
     (Inr \<lparr>status = 200,
           body = Rendered \<lparr>tpl_identity = ident, tpl_bucket_name = BN, tpl_message = msg,
                            tpl_message_class = ''error'', tpl_files = None\<rparr>\<rparr>, w')"
proof -
  obtain s w' where "get_identity w = (Inr s, w')"
    using get_identity_returns by blast
  then show ?thesis
    by (simp add: error_page_def prog_defs)
qed

lemma list_objects_no_client:
  assumes "next_fault w = Some e"
  shows "\<exists>ident w'. list_objects BN w =
     (Inr \<lparr>status = 200,
           body = Rendered
             \<lparr>tpl_identity = ident, tpl_bucket_name = BN,
              tpl_message =
                ''Failed to create storage client. Check Workload Identity configuration.'',
              tpl_message_class = ''error'', tpl_files = None\<rparr>\<rparr>, w')"
proof -
  obtain ident w' where
    "error_page BN ''Failed to create storage client. Check Workload Identity configuration.''
       (tick CallClient w) =
     (Inr \<lparr>status = 200,
           body = Rendered
             \<lparr>tpl_identity = ident, tpl_bucket_name = BN,
              tpl_message =
                ''Failed to create storage client. Check Workload Identity configuration.'',
              tpl_message_class = ''error'', tpl_files = None\<rparr>\<rparr>, w')"
    using error_page_returns by blast
  with assms show ?thesis
    by (simp add: list_objects_def try_except_def seq_def get_storage_client_run)
qed

lemma upload_file_run:
  "upload_file BN r w =
     (case map_of (files r) ''file'' of
        None \<Rightarrow> (Inr \<lparr>status = 400, body = Str ''No file part''\<rparr>, w)
      | Some f \<Rightarrow>
          if filename f = [] then (Inr \<lparr>status = 400, body = Str ''No selected file''\<rparr>, w)
          else
            (case next_fault w of
               Some e \<Rightarrow>
                 (Inr \<lparr>status = 500, body = Str ''Storage client error''\<rparr>, tick CallClient w)
             | None \<Rightarrow>
                 (case next_fault (tick CallClient w) of
                    Some e \<Rightarrow>
                      (Inr \<lparr>status = 500,
                            body = Str (''Error uploading file: '' @ str_exn e)\<rparr>,
                       tick (CallUpload (filename f) (stream f)) (tick CallClient w))
                  | None \<Rightarrow>
                      (Inr \<lparr>status = 200, body = Str (upload_page BN (filename f))\<rparr>,
                       (tick (CallUpload (filename f) (stream f)) (tick CallClient w))
                         \<lparr>objects := AList.update (filename f) (stream f) (objects w)\<rparr>))))"
  by (simp add: upload_file_def prog_defs get_storage_client_run upload_from_file_def
        extern_def split: option.splits)

lemma download_file_run:
  "download_file BN r w =
     (case map_of (args r) ''filename'' of
        None \<Rightarrow> (Inr \<lparr>status = 400, body = Str ''Filename required''\<rparr>, w)
      | Some k \<Rightarrow>
          if k = [] then (Inr \<lparr>status = 400, body = Str ''Filename required''\<rparr>, w)
          else
            (case next_fault w of
               Some e \<Rightarrow>
                 (Inr \<lparr>status = 500, body = Str ''Storage client error''\<rparr>, tick CallClient w)
             | None \<Rightarrow>
                 (case next_fault (tick CallClient w) of
                    Some e \<Rightarrow>
                      (Inr \<lparr>status = 500,
                            body = Str (''Error downloading file: '' @ str_exn e)\<rparr>,
                       tick (CallExists k) (tick CallClient w))
                  | None \<Rightarrow>
                      (case map_of (objects w) k of
                         None \<Rightarrow>
                           (Inr \<lparr>status = 404,
                                 body = Str (''File '' @ k @ '' not found'')\<rparr>,
                            tick (CallExists k) (tick CallClient w))
                       | Some c \<Rightarrow>
                           (case next_fault (tick (CallExists k) (tick CallClient w)) of
                              Some e \<Rightarrow>
                                (Inr \<lparr>status = 500,
                                      body = Str (''Error downloading file: '' @ str_exn e)\<rparr>,
                                 tick (CallDownload k)
                                   (tick (CallExists k) (tick CallClient w)))
                            | None \<Rightarrow>
                                (Inr \<lparr>status = 200, body = Str (download_page k c)\<rparr>,
                                 tick (CallDownload k)
                                   (tick (CallExists k) (tick CallClient w))))))))"
  by (simp add: download_file_def prog_defs get_storage_client_run blob_exists_run
        download_as_text_def extern_def split: option.splits)

lemma delete_file_run:
  "delete_file BN r w =
     (case map_of (form r) ''filename'' of
        None \<Rightarrow> (Inr \<lparr>status = 400, body = Str ''Filename required''\<rparr>, w)
      | Some k \<Rightarrow>
          if k = [] then (Inr \<lparr>status = 400, body = Str ''Filename required''\<rparr>, w)
          else
            (case next_fault w of
               Some e \<Rightarrow>
                 (Inr \<lparr>status = 500, body = Str ''Storage client error''\<rparr>, tick CallClient w)
             | None \<Rightarrow>
                 (case next_fault (tick CallClient w) of
                    Some e \<Rightarrow>
                      (Inr \<lparr>status = 500,
                            body = Str (''Error deleting file: '' @ str_exn e)\<rparr>,
                       tick (CallExists k) (tick CallClient w))
                  | None \<Rightarrow>
                      (case map_of (objects w) k of
                         None \<Rightarrow>
                           (Inr \<lparr>status = 404,
                                 body = Str (''File '' @ k @ '' not found'')\<rparr>,
                            tick (CallExists k) (tick CallClient w))
                       | Some c \<Rightarrow>
                           (case next_fault (tick (CallExists k) (tick CallClient w)) of
                              Some e \<Rightarrow>
                                (Inr \<lparr>status = 500,
                                      body = Str (''Error deleting file: '' @ str_exn e)\<rparr>,
                                 tick (CallDelete k)
                                   (tick (CallExists k) (tick CallClient w)))
                            | None \<Rightarrow>
                                (Inr \<lparr>status = 200, body = Str (delete_page BN k)\<rparr>,
                                 (tick (CallDelete k)
                                   (tick (CallExists k) (tick CallClient w)))
                                   \<lparr>objects := AList.delete k (objects w)\<rparr>))))))"
  by (simp add: delete_file_def prog_defs get_storage_client_run blob_exists_run
        blob_delete_def extern_def split: option.splits)

lemma health_run:
  "health w =
     (case next_fault w of
        Some e \<Rightarrow>
          (Inr \<lparr>status = 500, body = Json [(''status'', JString ''unhealthy''),
                                            (''authenticated'', JBool False)]\<rparr>,
           tick CallClient w)
      | None \<Rightarrow>
          (case next_fault (tick CallClient w) of
             Some e \<Rightarrow>
               (Inr \<lparr>status = 500, body = Json [(''status'', JString ''unhealthy''),
                                                 (''error'', JString (str_exn e))]\<rparr>,
                tick (CallListBuckets 1) (tick CallClient w))
           | None \<Rightarrow>
               (Inr \<lparr>status = 200, body = Json [(''status'', JString ''healthy''),
                                                 (''authenticated'', JBool True)]\<rparr>,
                tick (CallListBuckets 1) (tick CallClient w))))"
  by (simp add: health_def prog_defs get_storage_client_run list_buckets_def extern_def
        split: option.splits)

lemma sublist_download_page: "sublist c (download_page k c)"
  unfolding download_page_def sublist_def
  by (metis append.assoc)

section \<open>The claims\<close>

subsection \<open>C1: a missing object is answered 404\<close>

text \<open>
  C1, as stated: every \<^verbatim>\<open>/download\<close> and \<^verbatim>\<open>/delete\<close> request that supplies a
  non-absent filename naming an object that is not in the bucket is answered 404, given
  that the storage client was acquired.  It fails when the existence check itself raises:
  the request names \<^verbatim>\<open>a.txt\<close>, the bucket is empty, the client is acquired,
  \<^verbatim>\<open>blob.exists()\<close> raises, and the handler's \<^verbatim>\<open>except Exception\<close> answers 500.
\<close>

theorem failing_existence_check_is_500:
  "map_of (args (query ''a.txt'')) ''filename'' = Some ''a.txt'' \<and>
   map_of (form (posted ''a.txt'')) ''filename'' = Some ''a.txt'' \<and>
   map_of (objects (world_of [] [None, Some (GoogleAPIError ''503 Service Unavailable'')]))
     ''a.txt'' = None \<and>
   acquired (world_of [] [None, Some (GoogleAPIError ''503 Service Unavailable'')])
     (snd (download_file ''bucket'' (query ''a.txt'')
        (world_of [] [None, Some (GoogleAPIError ''503 Service Unavailable'')]))) \<and>
   fst (download_file ''bucket'' (query ''a.txt'')
        (world_of [] [None, Some (GoogleAPIError ''503 Service Unavailable'')])) =
     Inr \<lparr>status = 500,
          body = Str ''Error downloading file: 503 Service Unavailable''\<rparr> \<and>
   acquired (world_of [] [None, Some (GoogleAPIError ''503 Service Unavailable'')])
     (snd (delete_file ''bucket'' (posted ''a.txt'')
        (world_of [] [None, Some (GoogleAPIError ''503 Service Unavailable'')]))) \<and>
   fst (delete_file ''bucket'' (posted ''a.txt'')
        (world_of [] [None, Some (GoogleAPIError ''503 Service Unavailable'')])) =
     Inr \<lparr>status = 500,
          body = Str ''Error deleting file: 503 Service Unavailable''\<rparr>"
  by (simp add: download_file_run delete_file_run acquired_def example_defs)

text \<open>
  C1, amended: every \<^verbatim>\<open>/download\<close> request (filename in the query string) and every
  \<^verbatim>\<open>/delete\<close> request (filename in the form) that supplies a non-absent filename
  \<open>k\<close> naming an object that is not in the bucket is answered 404 with the not-found
  text, given that the storage client was acquired in the run and that the existence
  check is answered; the only external calls made are the client construction and the
  existence check, and the objects of the bucket are unchanged.
\<close>

theorem missing_object_404:
  assumes "map_of (objects w) k = None" and "next_fault (tick CallClient w) = None"
  shows "(map_of (args r) ''filename'' = Some k \<and> acquired w (snd (download_file BN r w)) \<longrightarrow>
           download_file BN r w =
             (Inr \<lparr>status = 404, body = Str (''File '' @ k @ '' not found'')\<rparr>,
              tick (CallExists k) (tick CallClient w))) \<and>
         (map_of (form r) ''filename'' = Some k \<and> acquired w (snd (delete_file BN r w)) \<longrightarrow>
           delete_file BN r w =
             (Inr \<lparr>status = 404, body = Str (''File '' @ k @ '' not found'')\<rparr>,
              tick (CallExists k) (tick CallClient w))) \<and>
         objects (tick (CallExists k) (tick CallClient w)) = objects w \<and>
         calls (tick (CallExists k) (tick CallClient w)) = calls w @ [CallClient, CallExists k]"
proof (cases "k = []")
  case True
  then show ?thesis
    by (simp add: download_file_run delete_file_run acquired_def)
next
  case False
  with assms show ?thesis
    by (simp add: download_file_run delete_file_run acquired_def)
qed

theorem missing_object_404_witness:
  "acquired (world_of [(''b.txt'', ''x'')] [])
     (snd (download_file ''bucket'' (query ''a.txt'') (world_of [(''b.txt'', ''x'')] []))) \<and>
   download_file ''bucket'' (query ''a.txt'') (world_of [(''b.txt'', ''x'')] []) =
     (Inr \<lparr>status = 404, body = Str ''File a.txt not found''\<rparr>,
      \<lparr>objects = [(''b.txt'', ''x'')], project = ''demo'', metadata = (404, ''Not Found''),
       pending = [], calls = [CallClient, CallExists ''a.txt'']\<rparr>) \<and>
   acquired (world_of [(''b.txt'', ''x'')] [])
     (snd (delete_file ''bucket'' (posted ''a.txt'') (world_of [(''b.txt'', ''x'')] []))) \<and>
   delete_file ''bucket'' (posted ''a.txt'') (world_of [(''b.txt'', ''x'')] []) =
     (Inr \<lparr>status = 404, body = Str ''File a.txt not found''\<rparr>,
      \<lparr>objects = [(''b.txt'', ''x'')], project = ''demo'', metadata = (404, ''Not Found''),
       pending = [], calls = [CallClient, CallExists ''a.txt'']\<rparr>)"
proof -
  let ?w = "world_of [(''b.txt'', ''x'')] []"
  have o: "map_of (objects ?w) ''a.txt'' = None"
    by (simp add: world_of_def)
  have e: "next_fault (tick CallClient ?w) = None"
    by (simp add: example_defs)
  have a: "acquired ?w (snd (download_file ''bucket'' (query ''a.txt'') ?w))"
    "acquired ?w (snd (delete_file ''bucket'' (posted ''a.txt'') ?w))"
    by (simp_all add: download_file_run delete_file_run acquired_def example_defs)
  have q: "map_of (args (query ''a.txt'')) ''filename'' = Some ''a.txt''"
    "map_of (form (posted ''a.txt'')) ''filename'' = Some ''a.txt''"
    by (simp_all add: query_def posted_def)
  show ?thesis
    using a q
      missing_object_404 [OF o e, where r = "query ''a.txt''" and BN = "''bucket''"]
      missing_object_404 [OF o e, where r = "posted ''a.txt''" and BN = "''bucket''"]
    by (simp add: example_defs)
qed

subsection \<open>C2: the health check\<close>

text \<open>
  C2: \<^verbatim>\<open>/health\<close> answers 200 with \<^verbatim>\<open>{"status":"healthy","authenticated":true}\<close>
  if and only if the client construction and the probe \<^verbatim>\<open>list_buckets(max_results=1)\<close>
  both succeed; when the construction fails it answers 500 with
  \<^verbatim>\<open>{"status":"unhealthy","authenticated":false}\<close>; when the probe raises \<open>e\<close> it
  answers 500 with \<^verbatim>\<open>{"status":"unhealthy","error":str(e)}\<close>.
\<close>

theorem health_status:
  "(fst (health w) =
      Inr \<lparr>status = 200, body = Json [(''status'', JString ''healthy''),
                                       (''authenticated'', JBool True)]\<rparr>
    \<longleftrightarrow> next_fault w = None \<and> next_fault (tick CallClient w) = None) \<and>
   (\<forall>e. next_fault w = Some e \<longrightarrow>
      fst (health w) =
        Inr \<lparr>status = 500, body = Json [(''status'', JString ''unhealthy''),
                                         (''authenticated'', JBool False)]\<rparr>) \<and>
   (\<forall>e. next_fault w = None \<and> next_fault (tick CallClient w) = Some e \<longrightarrow>
      fst (health w) =
        Inr \<lparr>status = 500, body = Json [(''status'', JString ''unhealthy''),
                                         (''error'', JString (str_exn e))]\<rparr>)"
  by (auto simp: health_run split: option.splits)

theorem health_status_witness:
  "fst (health (world_of [] [])) =
     Inr \<lparr>status = 200, body = Json [(''status'', JString ''healthy''),
                                      (''authenticated'', JBool True)]\<rparr> \<and>
   fst (health (world_of [] [Some (OtherError ''no credentials'')])) =
     Inr \<lparr>status = 500, body = Json [(''status'', JString ''unhealthy''),
                                      (''authenticated'', JBool False)]\<rparr> \<and>
   fst (health (world_of [] [None, Some (GoogleAPIError ''403 Forbidden'')])) =
     Inr \<lparr>status = 500, body = Json [(''status'', JString ''unhealthy''),
                                      (''error'', JString ''403 Forbidden'')]\<rparr>"
  using health_status [of "world_of [] []"]
    health_status [of "world_of [] [Some (OtherError ''no credentials'')]"]
    health_status [of "world_of [] [None, Some (GoogleAPIError ''403 Forbidden'')]"]
  by (simp add: example_defs)

subsection \<open>C3: an upload without a file\<close>

text \<open>
  C3: a \<^verbatim>\<open>/upload\<close> request with no part named \<^verbatim>\<open>file\<close>, or whose \<^verbatim>\<open>file\<close> part
  has an empty filename, is answered 400 with a plain-text body, whatever else the request
  carries; the world is returned as it was, so no client was acquired and no call made.
\<close>

theorem upload_without_file_400:
  assumes "map_of (files r) ''file'' = None \<or>
           (\<exists>f. map_of (files r) ''file'' = Some f \<and> filename f = [])"
  shows "\<exists>msg. upload_file BN r w = (Inr \<lparr>status = 400, body = Str msg\<rparr>, w)"
  using assms by (auto simp: upload_file_run)

theorem upload_without_file_400_witness:
  "(\<exists>msg. upload_file ''bucket'' (query ''a.txt'') (world_of [] []) =
      (Inr \<lparr>status = 400, body = Str msg\<rparr>, world_of [] [])) \<and>
   (\<exists>msg. upload_file ''bucket'' (multipart [] ''hello'') (world_of [] []) =
      (Inr \<lparr>status = 400, body = Str msg\<rparr>, world_of [] []))"
  using upload_without_file_400 [where r = "query ''a.txt''" and BN = "''bucket''"
      and w = "world_of [] []"]
    upload_without_file_400 [where r = "multipart [] ''hello''" and BN = "''bucket''"
      and w = "world_of [] []"]
  by (simp add: query_def multipart_def)

subsection \<open>C4: the identity resolver\<close>

text \<open>
  C4, as stated: the resolver always returns a display string; (c) when the metadata query
  fails or returns a non-success status it returns the descriptor with the project alone;
  (d) when client initialisation fails it returns the sentinel.  Part (c) fails when the
  query raises: the client is built, \<^verbatim>\<open>requests.get\<close> raises inside the same
  \<^verbatim>\<open>try\<close>, and the handler returns the sentinel, not the project descriptor.
\<close>

theorem metadata_failure_gives_sentinel:
  "next_fault (world_of [] [None, Some (OtherError ''ConnectionError'')]) = None \<and>
   next_fault (tick CallClient (world_of [] [None, Some (OtherError ''ConnectionError'')])) =
     Some (OtherError ''ConnectionError'') \<and>
   fst (get_identity (world_of [] [None, Some (OtherError ''ConnectionError'')])) =
     Inr ''Unknown (Not properly authenticated)'' \<and>
   fst (get_identity (world_of [] [None, Some (OtherError ''ConnectionError'')])) \<noteq>
     Inr (''Authenticated (Project: '' @
          project (world_of [] [None, Some (OtherError ''ConnectionError'')]) @ '')'')"
  by (simp add: get_identity_def prog_defs storage_Client_def requests_get_def extern_def
        example_defs)

text \<open>
  C4, amended: the resolver always returns a display string and never raises; (c) when the
  client is built and the metadata query is answered with a status other than 200 it
  returns the descriptor with the project alone; (d) when client initialisation fails it
  returns the sentinel \<^verbatim>\<open>Unknown (Not properly authenticated)\<close>.
\<close>

theorem get_identity_total:
  "(\<exists>s w'. get_identity w = (Inr s, w')) \<and>
   (next_fault w = None \<and> next_fault (tick CallClient w) = None \<and> fst (metadata w) \<noteq> 200 \<longrightarrow>
      fst (get_identity w) = Inr (''Authenticated (Project: '' @ project w @ '')'')) \<and>
   (\<forall>e. next_fault w = Some e \<longrightarrow>
      fst (get_identity w) = Inr ''Unknown (Not properly authenticated)'')"
  by (simp add: get_identity_def prog_defs storage_Client_def requests_get_def extern_def
        split: option.splits)

theorem get_identity_total_witness:
  "fst (get_identity (world_of [] [])) = Inr ''Authenticated (Project: demo)'' \<and>
   fst (get_identity (world_of [] [Some (OtherError ''no credentials'')])) =
     Inr ''Unknown (Not properly authenticated)''"
  using get_identity_total [of "world_of [] []"]
    get_identity_total [of "world_of [] [Some (OtherError ''no credentials'')]"]
  by (simp add: example_defs)

subsection \<open>C5: listing without a client\<close>

text \<open>
  C5: when the client construction fails during \<^verbatim>\<open>/list\<close>, the handler answers 200
  with the rendered page carrying the error message and no list of objects.
\<close>

theorem list_objects_without_client:
  assumes "next_fault w = Some e"
  shows "\<exists>ident w'. list_objects BN w =
     (Inr \<lparr>status = 200,
           body = Rendered
             \<lparr>tpl_identity = ident, tpl_bucket_name = BN,
              tpl_message =
                ''Failed to create storage client. Check Workload Identity configuration.'',
              tpl_message_class = ''error'', tpl_files = None\<rparr>\<rparr>, w')"
  using assms by (rule list_objects_no_client)

theorem list_objects_without_client_witness:
  "next_fault (world_of [(''a.txt'', ''x'')] [Some (OtherError ''no credentials'')]) =
     Some (OtherError ''no credentials'') \<and>
   (\<exists>ident w'. list_objects ''bucket''
        (world_of [(''a.txt'', ''x'')] [Some (OtherError ''no credentials'')]) =
     (Inr \<lparr>status = 200,
           body = Rendered
             \<lparr>tpl_identity = ident, tpl_bucket_name = ''bucket'',
              tpl_message =
                ''Failed to create storage client. Check Workload Identity configuration.'',
              tpl_message_class = ''error'', tpl_files = None\<rparr>\<rparr>, w'))"
proof -
  have h: "next_fault (world_of [(''a.txt'', ''x'')] [Some (OtherError ''no credentials'')]) =
     Some (OtherError ''no credentials'')"
    by (simp add: example_defs)
  show ?thesis
    using h list_objects_without_client [OF h, of "''bucket''"] by blast
qed

subsection \<open>C6: where the filename is read from\<close>

text \<open>
  C6: \<^verbatim>\<open>/download\<close> reads the filename from the query string only and
  \<^verbatim>\<open>/delete\<close> from the form body only: neither handler depends on the other source,
  and a request without the parameter in the handler's own source is answered 400, for
  \<^verbatim>\<open>/delete\<close> also when the query string carries a filename.
\<close>

theorem filename_source_400:
  "(map_of (args r) ''filename'' = None \<longrightarrow>
      download_file BN r w = (Inr \<lparr>status = 400, body = Str ''Filename required''\<rparr>, w)) \<and>
   (map_of (form r) ''filename'' = None \<longrightarrow>
      delete_file BN r w = (Inr \<lparr>status = 400, body = Str ''Filename required''\<rparr>, w)) \<and>
   download_file BN (r\<lparr>form := fm, files := fs\<rparr>) w = download_file BN r w \<and>
   delete_file BN (r\<lparr>args := qs, files := fs\<rparr>) w = delete_file BN r w"
  by (simp add: download_file_def delete_file_def prog_defs)

theorem filename_source_400_witness:
  "map_of (form (query ''a.txt'')) ''filename'' = None \<and>
   map_of (args (query ''a.txt'')) ''filename'' = Some ''a.txt'' \<and>
   delete_file ''bucket'' (query ''a.txt'') (world_of [(''a.txt'', ''x'')] []) =
     (Inr \<lparr>status = 400, body = Str ''Filename required''\<rparr>, world_of [(''a.txt'', ''x'')] []) \<and>
   map_of (args (posted ''a.txt'')) ''filename'' = None \<and>
   download_file ''bucket'' (posted ''a.txt'') (world_of [(''a.txt'', ''x'')] []) =
     (Inr \<lparr>status = 400, body = Str ''Filename required''\<rparr>, world_of [(''a.txt'', ''x'')] [])"
  using filename_source_400 [where r = "query ''a.txt''" and BN = "''bucket''"
      and w = "world_of [(''a.txt'', ''x'')] []"]
    filename_source_400 [where r = "posted ''a.txt''" and BN = "''bucket''"
      and w = "world_of [(''a.txt'', ''x'')] []"]
  by (simp add: query_def posted_def)

subsection \<open>C7: upload, then download\<close>

text \<open>
  C7, as stated: after \<^verbatim>\<open>/upload\<close> of content \<open>C\<close> under key \<open>K\<close> succeeded, a
  following \<^verbatim>\<open>/download?filename=K\<close> returns 200 with a body containing \<open>C\<close>.  It
  fails when a backend call of the download request raises: the upload of
  \<^verbatim>\<open>test-file.txt\<close> is answered 200, the client constructor raises during the
  download, and the download is answered 500.
\<close>

theorem download_after_upload_can_be_500:
  "fst (upload_file ''bucket'' (multipart ''test-file.txt'' ''hello world'')
          (world_of [] [None, None, Some (OtherError ''no credentials'')])) =
     Inr \<lparr>status = 200, body = Str (upload_page ''bucket'' ''test-file.txt'')\<rparr> \<and>
   map_of (objects (snd (upload_file ''bucket'' (multipart ''test-file.txt'' ''hello world'')
          (world_of [] [None, None, Some (OtherError ''no credentials'')]))))
     ''test-file.txt'' = Some ''hello world'' \<and>
   fst (download_file ''bucket'' (query ''test-file.txt'')
          (snd (upload_file ''bucket'' (multipart ''test-file.txt'' ''hello world'')
             (world_of [] [None, None, Some (OtherError ''no credentials'')])))) =
     Inr \<lparr>status = 500, body = Str ''Storage client error''\<rparr>"
  by (simp add: upload_file_run download_file_run example_defs)

text \<open>
  C7, amended: when \<^verbatim>\<open>/upload\<close> of the file part with filename \<open>K\<close> and content
  \<open>C\<close> succeeded (status 200), the bucket holds \<open>C\<close> under the key \<open>K\<close> itself, in
  place of whatever was there, and every other key is as before; a following
  \<^verbatim>\<open>/download?filename=K\<close> returns 200 with a body that contains \<open>C\<close>, provided the
  three backend calls of the download request (client construction, existence check,
  download) are answered.  The instance is the scenario of the specification:
  \<^verbatim>\<open>test-file.txt\<close> with \<^verbatim>\<open>hello world\<close>.
\<close>

theorem upload_download_roundtrip:
  assumes "map_of (files r) ''file'' = Some f"
    and "upload_file BN r w = (Inr resp, w1)" and "status resp = 200"
    and "map_of (args r') ''filename'' = Some (filename f)"
    and "answered 3 w1"
  shows "map_of (objects w1) = (map_of (objects w))(filename f \<mapsto> stream f) \<and>
         (\<exists>b w2. download_file BN r' w1 = (Inr \<lparr>status = 200, body = Str b\<rparr>, w2) \<and>
                  sublist (stream f) b)"
proof -
  from assms(1-3) have ne: "filename f \<noteq> []"
    and w1: "objects w1 = AList.update (filename f) (stream f) (objects w)"
    by (auto simp: upload_file_run split: if_splits option.splits)
  have m: "map_of (objects w1) = (map_of (objects w))(filename f \<mapsto> stream f)"
    by (simp add: w1 update_conv')
  have nf: "next_fault w1 = None" "next_fault (tick CallClient w1) = None"
    "next_fault (tick (CallExists (filename f)) (tick CallClient w1)) = None"
    using answered_3 [OF assms(5)] by simp_all
  have "download_file BN r' w1 =
          (Inr \<lparr>status = 200, body = Str (download_page (filename f) (stream f))\<rparr>,
           tick (CallDownload (filename f)) (tick (CallExists (filename f)) (tick CallClient w1)))"
    by (simp add: download_file_run assms(4) ne nf m)
  with m show ?thesis
    using sublist_download_page by blast
qed

theorem upload_download_roundtrip_witness:
  "fst (upload_file ''bucket'' (multipart ''test-file.txt'' ''hello world'')
          (world_of [(''test-file.txt'', ''old'')] [])) =
     Inr \<lparr>status = 200, body = Str (upload_page ''bucket'' ''test-file.txt'')\<rparr> \<and>
   (\<exists>b w2. download_file ''bucket'' (query ''test-file.txt'')
       (snd (upload_file ''bucket'' (multipart ''test-file.txt'' ''hello world'')
          (world_of [(''test-file.txt'', ''old'')] []))) =
       (Inr \<lparr>status = 200, body = Str b\<rparr>, w2) \<and> sublist ''hello world'' b)"
proof -
  let ?r = "multipart ''test-file.txt'' ''hello world''"
  let ?w = "world_of [(''test-file.txt'', ''old'')] []"
  have up: "upload_file ''bucket'' ?r ?w =
      (Inr \<lparr>status = 200, body = Str (upload_page ''bucket'' ''test-file.txt'')\<rparr>,
       snd (upload_file ''bucket'' ?r ?w))"
    by (simp add: upload_file_run example_defs)
  have f: "map_of (files ?r) ''file'' =
      Some \<lparr>filename = ''test-file.txt'', stream = ''hello world''\<rparr>"
    by (simp add: multipart_def)
  have q: "map_of (args (query ''test-file.txt'')) ''filename'' =
      Some (filename \<lparr>filename = ''test-file.txt'', stream = ''hello world''\<rparr>)"
    by (simp add: query_def)
  have a: "answered 3 (snd (upload_file ''bucket'' ?r ?w))"
    by (simp add: upload_file_run example_defs answered_def)
  have upf: "fst (upload_file ''bucket'' ?r ?w) =
      Inr \<lparr>status = 200, body = Str (upload_page ''bucket'' ''test-file.txt'')\<rparr>"
    by (simp add: upload_file_run example_defs)
  show ?thesis
    using upf upload_download_roundtrip [OF f up _ q a] by simp
qed

subsection \<open>C8: deleting twice\<close>

text \<open>
  C8, as stated: for a key \<open>K\<close> present in the bucket, a first successful
  \<^verbatim>\<open>/delete\<close> of \<open>K\<close> returns 200 and the same request sent again returns exactly
  404.  It fails when a backend call of the second request raises: the first delete of
  \<^verbatim>\<open>a.txt\<close> is answered 200, the client constructor raises during the second, and the
  second is answered 500.
\<close>

theorem second_delete_can_be_500:
  "map_of (objects (world_of [(''a.txt'', ''x'')]
          [None, None, None, Some (OtherError ''no credentials'')])) ''a.txt'' = Some ''x'' \<and>
   fst (delete_file ''bucket'' (posted ''a.txt'')
          (world_of [(''a.txt'', ''x'')]
             [None, None, None, Some (OtherError ''no credentials'')])) =
     Inr \<lparr>status = 200, body = Str (delete_page ''bucket'' ''a.txt'')\<rparr> \<and>
   fst (delete_file ''bucket'' (posted ''a.txt'')
          (snd (delete_file ''bucket'' (posted ''a.txt'')
             (world_of [(''a.txt'', ''x'')]
                [None, None, None, Some (OtherError ''no credentials'')])))) =
     Inr \<lparr>status = 500, body = Str ''Storage client error''\<rparr>"
  by (simp add: delete_file_run example_defs)

text \<open>
  C8, amended: for a key \<open>K\<close> present in the bucket, when a first \<^verbatim>\<open>/delete\<close> of
  \<open>K\<close> succeeded (status 200) the object is gone, and the same request sent again is
  answered exactly 404 provided its two backend calls (client construction, existence
  check) are answered; in no case is the second answer 200.
\<close>

theorem delete_twice_404:
  assumes "map_of (form r) ''filename'' = Some k" and "map_of (objects w) k \<noteq> None"
    and "delete_file BN r w = (Inr resp, w1)" and "status resp = 200"
  shows "map_of (objects w1) k = None \<and>
         (answered 2 w1 \<longrightarrow>
            (\<exists>w2. delete_file BN r w1 =
               (Inr \<lparr>status = 404, body = Str (''File '' @ k @ '' not found'')\<rparr>, w2))) \<and>
         (\<forall>resp2. fst (delete_file BN r w1) = Inr resp2 \<longrightarrow> status resp2 \<noteq> 200)"
proof -
  from assms have ne: "k \<noteq> []"
    and w1: "objects w1 = AList.delete k (objects w)"
    by (auto simp: delete_file_run split: if_splits option.splits)
  have gone: "map_of (objects w1) k = None"
    by (simp add: w1 delete_conv')
  have second: "\<exists>w2. delete_file BN r w1 =
      (Inr \<lparr>status = 404, body = Str (''File '' @ k @ '' not found'')\<rparr>, w2)"
    if "answered 2 w1"
    using answered_2 [OF that, of CallClient]
    by (simp add: delete_file_run assms(1) ne gone)
  have never: "status resp2 \<noteq> 200" if "fst (delete_file BN r w1) = Inr resp2" for resp2
    using that by (auto simp: delete_file_run assms(1) ne gone split: option.splits)
  from gone second never show ?thesis by blast
qed

theorem delete_twice_404_witness:
  "fst (delete_file ''bucket'' (posted ''a.txt'') (world_of [(''a.txt'', ''x'')] [])) =
     Inr \<lparr>status = 200, body = Str (delete_page ''bucket'' ''a.txt'')\<rparr> \<and>
   (\<exists>w2. delete_file ''bucket'' (posted ''a.txt'')
       (snd (delete_file ''bucket'' (posted ''a.txt'') (world_of [(''a.txt'', ''x'')] []))) =
       (Inr \<lparr>status = 404, body = Str ''File a.txt not found''\<rparr>, w2))"
proof -
  let ?r = "posted ''a.txt''"
  let ?w = "world_of [(''a.txt'', ''x'')] []"
  have del: "delete_file ''bucket'' ?r ?w =
      (Inr \<lparr>status = 200, body = Str (delete_page ''bucket'' ''a.txt'')\<rparr>,
       snd (delete_file ''bucket'' ?r ?w))"
    by (simp add: delete_file_run example_defs)
  have k: "map_of (form ?r) ''filename'' = Some ''a.txt''"
    by (simp add: posted_def)
  have p: "map_of (objects ?w) ''a.txt'' \<noteq> None"
    by (simp add: world_of_def)
  have a: "answered 2 (snd (delete_file ''bucket'' ?r ?w))"
    by (simp add: delete_file_run example_defs answered_def)
  have delf: "fst (delete_file ''bucket'' ?r ?w) =
      Inr \<lparr>status = 200, body = Str (delete_page ''bucket'' ''a.txt'')\<rparr>"
    by (simp add: delete_file_run example_defs)
  show ?thesis
    using delf a delete_twice_404 [OF k p del] by simp
qed

subsection \<open>C9: acquiring the client never raises\<close>

text \<open>
  C9: \<^verbatim>\<open>get_storage_client\<close> returns for every outcome of the constructor, the client
  when the constructor succeeds and \<^verbatim>\<open>None\<close> when it raises, and never raises itself;
  so when the constructor raises, every route that calls it takes its branch for a
  missing client: the error page for \<^verbatim>\<open>/list\<close>, 500 \<^verbatim>\<open>Storage client error\<close> for
  \<^verbatim>\<open>/upload\<close>, \<^verbatim>\<open>/download\<close> and \<^verbatim>\<open>/delete\<close> (once their parameter checks are
  passed), and the unauthenticated answer for \<^verbatim>\<open>/health\<close>.
\<close>

theorem get_storage_client_total:
  "(\<exists>c. get_storage_client w = (Inr c, tick CallClient w)) \<and>
   (next_fault w = None \<longrightarrow> fst (get_storage_client w) = Inr (Some (Client (project w)))) \<and>
   (\<forall>e. next_fault w = Some e \<longrightarrow>
      fst (get_storage_client w) = Inr None \<and>
      (\<exists>ident. fst (list_objects BN w) =
         Inr \<lparr>status = 200,
              body = Rendered
                \<lparr>tpl_identity = ident, tpl_bucket_name = BN,
                 tpl_message =
                   ''Failed to create storage client. Check Workload Identity configuration.'',
                 tpl_message_class = ''error'', tpl_files = None\<rparr>\<rparr>) \<and>
      (\<forall>f. map_of (files r) ''file'' = Some f \<and> filename f \<noteq> [] \<longrightarrow>
         fst (upload_file BN r w) = Inr \<lparr>status = 500, body = Str ''Storage client error''\<rparr>) \<and>
      (truthy (map_of (args r) ''filename'') \<longrightarrow>
         fst (download_file BN r w) = Inr \<lparr>status = 500, body = Str ''Storage client error''\<rparr>) \<and>
      (truthy (map_of (form r) ''filename'') \<longrightarrow>
         fst (delete_file BN r w) = Inr \<lparr>status = 500, body = Str ''Storage client error''\<rparr>) \<and>
      fst (health w) =
        Inr \<lparr>status = 500, body = Json [(''status'', JString ''unhealthy''),
                                         (''authenticated'', JBool False)]\<rparr>)"
proof (intro conjI allI impI)
  fix e assume nf: "next_fault w = Some e"
  obtain ident w' where "list_objects BN w =
     (Inr \<lparr>status = 200,
           body = Rendered
             \<lparr>tpl_identity = ident, tpl_bucket_name = BN,
              tpl_message =
                ''Failed to create storage client. Check Workload Identity configuration.'',
              tpl_message_class = ''error'', tpl_files = None\<rparr>\<rparr>, w')"
    using list_objects_no_client [OF nf] by blast
  then show "\<exists>ident. fst (list_objects BN w) =
         Inr \<lparr>status = 200,
              body = Rendered
                \<lparr>tpl_identity = ident, tpl_bucket_name = BN,
                 tpl_message =
                   ''Failed to create storage client. Check Workload Identity configuration.'',
                 tpl_message_class = ''error'', tpl_files = None\<rparr>\<rparr>"
    by auto
qed (auto simp: get_storage_client_run upload_file_run download_file_run delete_file_run
       health_run truthy_def split: option.splits)

theorem get_storage_client_total_witness:
  "fst (get_storage_client (world_of [] [])) = Inr (Some (Client ''demo'')) \<and>
   fst (get_storage_client (world_of [] [Some (OtherError ''no credentials'')])) = Inr None \<and>
   fst (download_file ''bucket'' (query ''a.txt'')
          (world_of [] [Some (OtherError ''no credentials'')])) =
     Inr \<lparr>status = 500, body = Str ''Storage client error''\<rparr>"
  using get_storage_client_total [where w = "world_of [] []"]
    get_storage_client_total [where w = "world_of [] [Some (OtherError ''no credentials'')]"
      and r = "query ''a.txt''" and BN = "''bucket''"]
  by (simp add: example_defs)

subsection \<open>C10: an empty filename counts as none\<close>

text \<open>
  C10: a \<^verbatim>\<open>/download\<close> request whose query parameter \<^verbatim>\<open>filename\<close> is the empty
  string, and a \<^verbatim>\<open>/delete\<close> request whose form field \<^verbatim>\<open>filename\<close> is the empty
  string, are answered 400; the world is returned as it was, so no client was acquired.
\<close>

theorem empty_filename_400:
  "(map_of (args r) ''filename'' = Some [] \<longrightarrow>
      download_file BN r w = (Inr \<lparr>status = 400, body = Str ''Filename required''\<rparr>, w)) \<and>
   (map_of (form r) ''filename'' = Some [] \<longrightarrow>
      delete_file BN r w = (Inr \<lparr>status = 400, body = Str ''Filename required''\<rparr>, w))"
  by (simp add: download_file_def delete_file_def prog_defs)

theorem empty_filename_400_witness:
  "map_of (args (query [])) ''filename'' = Some [] \<and>
   download_file ''bucket'' (query []) (world_of [] [Some (OtherError ''no credentials'')]) =
     (Inr \<lparr>status = 400, body = Str ''Filename required''\<rparr>,
      world_of [] [Some (OtherError ''no credentials'')]) \<and>
   map_of (form (posted [])) ''filename'' = Some [] \<and>
   delete_file ''bucket'' (posted []) (world_of [] [Some (OtherError ''no credentials'')]) =
     (Inr \<lparr>status = 400, body = Str ''Filename required''\<rparr>,
      world_of [] [Some (OtherError ''no credentials'')])"
  using empty_filename_400 [where r = "query []" and BN = "''bucket''"
      and w = "world_of [] [Some (OtherError ''no credentials'')]"]
    empty_filename_400 [where r = "posted []" and BN = "''bucket''"
      and w = "world_of [] [Some (OtherError ''no credentials'')]"]
  by (simp add: query_def posted_def)

end
